theory Spec2Isabelle
  imports Main "HOL-Library.Word"
begin

unbundle bit_operations_syntax

section \<open>Data model\<close>

text \<open>
  The header \<^verbatim>\<open>UnicodeFormatTranslation.h\<close> works on three unit types:
  \<^verbatim>\<open>char\<close> (8 bits), \<^verbatim>\<open>wchar_t\<close> (16 bits, unsigned, as on Windows, for which
  the repository is written) and \<^verbatim>\<open>char32_t\<close> (32 bits, unsigned). A unit is modelled by
  its bit pattern. \<^verbatim>\<open>int\<close> is 32 bits wide; every \<^verbatim>\<open>int\<close> computed by the code
  stays far away from overflow, so it is modelled by its 32-bit two's complement
  pattern as well.
\<close>

type_synonym char8 = "8 word"
type_synonym wchar = "16 word"
type_synonym char32 = "32 word"

datatype InvalidUnicode = Substitute | Preserve_8 | Preserve_16

text \<open>
  Whether plain \<^verbatim>\<open>char\<close> is signed is implementation-defined in C++ and is
  fixed by the compiler, not by the header; it is a parameter of the model. The Microsoft
  compiler, for which the project is a template, has a signed \<^verbatim>\<open>char\<close> unless it is
  told otherwise (\<^verbatim>\<open>/J\<close>). \<open>promote\<close> is the integral promotion of a
  \<^verbatim>\<open>char\<close> to \<^verbatim>\<open>int\<close>: sign extension for a signed \<^verbatim>\<open>char\<close>, zero extension
  for an unsigned one.
\<close>

datatype char_sign = SignedChar | UnsignedChar

definition promote :: "char_sign \<Rightarrow> char8 \<Rightarrow> 32 word" where
  "promote sg c = (case sg of SignedChar \<Rightarrow> scast c | UnsignedChar \<Rightarrow> ucast c)"

text \<open>
  Indexing a \<^verbatim>\<open>std::string_view\<close> at or past its length is undefined behaviour
  (an assertion failure in a debug build); the model returns it as an error value.
\<close>

datatype error = OutOfRange

section \<open>Namespace utf8byte\<close>

definition isASCII :: "char_sign \<Rightarrow> char8 \<Rightarrow> bool" where
  "isASCII sg c = (promote sg c AND 0x80 = 0x00)"

definition isTrail :: "char_sign \<Rightarrow> char8 \<Rightarrow> bool" where
  "isTrail sg c = (promote sg c AND 0xC0 = 0x80)"

definition isLead2 :: "char_sign \<Rightarrow> char8 \<Rightarrow> bool" where
  "isLead2 sg c = (promote sg c AND 0xE0 = 0xC0 \<and> promote sg c AND 0xFE \<noteq> 0xC0)"

definition isLead3 :: "char_sign \<Rightarrow> char8 \<Rightarrow> bool" where
  "isLead3 sg c = (promote sg c AND 0xF0 = 0xE0)"

definition isLead4 :: "char_sign \<Rightarrow> char8 \<Rightarrow> bool" where
  "isLead4 sg c = (promote sg c AND 0xFC = 0xF0 \<or> promote sg c = 0xF4)"

definition isTrash :: "char_sign \<Rightarrow> char8 \<Rightarrow> bool" where
  "isTrash sg c =
     (promote sg c AND 0xFE = 0xC0 \<or>
      (promote sg c AND 0xF0 = 0xF0 \<and> promote sg c AND 0x0C \<noteq> 0x00 \<and> promote sg c \<noteq> 0xF4))"

text \<open>\<^verbatim>\<open>badPair\<close> takes its arguments as \<^verbatim>\<open>unsigned char\<close>: the comparisons are unsigned.\<close>

definition badPair :: "char8 \<Rightarrow> char8 \<Rightarrow> bool" where
  "badPair c1 c2 =
     ((c1 = 0xE0 \<and> c2 < 0xA0) \<or> (c1 = 0xED \<and> c2 > 0x9F) \<or>
      (c1 = 0xF0 \<and> c2 < 0x90) \<or> (c1 = 0xF4 \<and> c2 > 0x8F))"

definition implicit_length :: "char_sign \<Rightarrow> char8 \<Rightarrow> nat" where
  "implicit_length sg c =
     (if isASCII sg c then 1
      else if isLead2 sg c then 2
      else if isLead3 sg c then 3
      else if isLead4 sg c then 4
      else 0)"

text \<open>The two overloads of \<^verbatim>\<open>valid_trail\<close> and the three of \<^verbatim>\<open>to32\<close>, named by arity.\<close>

definition valid_trail3 :: "char_sign \<Rightarrow> char8 \<Rightarrow> char8 \<Rightarrow> char8 \<Rightarrow> bool" where
  "valid_trail3 sg c1 c2 c3 = (\<not> badPair c1 c2 \<and> isTrail sg c2 \<and> isTrail sg c3)"

definition valid_trail4 :: "char_sign \<Rightarrow> char8 \<Rightarrow> char8 \<Rightarrow> char8 \<Rightarrow> char8 \<Rightarrow> bool" where
  "valid_trail4 sg c1 c2 c3 c4 =
     (\<not> badPair c1 c2 \<and> isTrail sg c2 \<and> isTrail sg c3 \<and> isTrail sg c4)"

definition to32_2 :: "char_sign \<Rightarrow> char8 \<Rightarrow> char8 \<Rightarrow> char32" where
  "to32_2 sg c1 c2 = (push_bit 6 (promote sg c1 AND 0x1F) OR (promote sg c2 AND 0x3F))"

definition to32_3 :: "char_sign \<Rightarrow> char8 \<Rightarrow> char8 \<Rightarrow> char8 \<Rightarrow> char32" where
  "to32_3 sg c1 c2 c3 =
     (push_bit 12 (promote sg c1 AND 0x0F) OR push_bit 6 (promote sg c2 AND 0x3F)
      OR (promote sg c3 AND 0x3F))"

definition to32_4 :: "char_sign \<Rightarrow> char8 \<Rightarrow> char8 \<Rightarrow> char8 \<Rightarrow> char8 \<Rightarrow> char32" where
  "to32_4 sg c1 c2 c3 c4 =
     (push_bit 18 (promote sg c1 AND 0x07) OR push_bit 12 (promote sg c2 AND 0x3F)
      OR push_bit 6 (promote sg c3 AND 0x3F) OR (promote sg c4 AND 0x3F))"

section \<open>Converters between UTF-16 and UTF-32\<close>

text \<open>
  The \<^verbatim>\<open>for\<close> loops of the converters become recursive functions on the index
  \<open>i\<close>, with the output string as an accumulator. A loop body that consumes more than one
  unit adds to \<open>i\<close> before the loop's own \<^verbatim>\<open>++i\<close>.
\<close>

function utf16to32_loop :: "wchar list \<Rightarrow> nat \<Rightarrow> char32 list \<Rightarrow> char32 list" where
  "utf16to32_loop w i u =
     (if i < length w then
        (if w ! i \<ge> 0xD800 \<and> w ! i < 0xDC00 \<and> i + 1 < length w
              \<and> w ! (i + 1) \<ge> 0xDC00 \<and> w ! (i + 1) \<le> 0xDFFF
         then utf16to32_loop w (i + 1 + 1)
                (u @ [(push_bit 10 (ucast (w ! i) AND 0x7FF) OR (ucast (w ! (i + 1)) AND 0x03FF))
                        + 0x10000])
         else utf16to32_loop w (i + 1) (u @ [ucast (w ! i)]))
      else u)"
  by pat_completeness auto
termination
  by (relation "measure (\<lambda>(w, i, u). length w - i)") auto

declare utf16to32_loop.simps [simp del]

definition utf16to32 :: "wchar list \<Rightarrow> char32 list" where
  "utf16to32 w = utf16to32_loop w 0 []"

text \<open>
  \<^verbatim>\<open>utf32to16\<close> and \<^verbatim>\<open>utf32to8\<close> look at one element per iteration and never
  skip: the loop is a map over the input, and the function of one element is the loop body.
  The subtraction and the shift are on \<^verbatim>\<open>char32_t\<close>, hence unsigned; the
  \<^verbatim>\<open>static_cast<wchar_t>\<close> keeps the low 16 bits.
\<close>

definition utf32to16_unit :: "char32 \<Rightarrow> wchar list" where
  "utf32to16_unit c =
     (if c \<ge> 0x10000
      then [ucast (0xD800 + drop_bit 10 (c - 0x10000)), ucast (0xDC00 + (c AND 0x03FF))]
      else [ucast c])"

definition utf32to16 :: "char32 list \<Rightarrow> wchar list" where
  "utf32to16 u = concat (map utf32to16_unit u)"

section \<open>Converters between UTF-8 and UTF-32\<close>

text \<open>
  The last statement of the loop body of \<^verbatim>\<open>utf8to32\<close> and \<^verbatim>\<open>utf8to16\<close>, reached by
  every \<^verbatim>\<open>break\<close> and by a length of 0: the value is the \<^verbatim>\<open>int\<close>
  \<^verbatim>\<open>0xDC00 + s[i]\<close>, with \<^verbatim>\<open>s[i]\<close> promoted, or \<^verbatim>\<open>0xFFFD\<close>.
\<close>

definition invalid_unit :: "char_sign \<Rightarrow> InvalidUnicode \<Rightarrow> char8 \<Rightarrow> 32 word" where
  "invalid_unit sg errs c = (if errs = Preserve_8 then 0xDC00 + promote sg c else 0xFFFD)"

text \<open>
  One iteration of \<^verbatim>\<open>utf8to32\<close> at index \<open>i < length s\<close>: the units appended to
  \<^verbatim>\<open>u\<close> and the amount added to \<open>i\<close> before \<^verbatim>\<open>continue\<close>.

  In \<^verbatim>\<open>case 4\<close> the condition of the \<^verbatim>\<open>if\<close> is a comma expression:
  \<^verbatim>\<open>i + 3 >= s.length() || !valid_trail(s[i], s[i + 1], s[i + 2])\<close> is evaluated and
  dropped, and the condition is \<^verbatim>\<open>s[i + 3]\<close>, converted to \<^verbatim>\<open>bool\<close>. It is read
  whether or not \<open>i + 3\<close> is inside the view. The code point then appended comes from the
  three-argument \<^verbatim>\<open>to32\<close>.
\<close>

definition utf8to32_step ::
  "char_sign \<Rightarrow> InvalidUnicode \<Rightarrow> char8 list \<Rightarrow> nat \<Rightarrow> error + (char32 list \<times> nat)" where
  "utf8to32_step sg errs s i =
     (let n = implicit_length sg (s ! i);
          invalid = Inr ([invalid_unit sg errs (s ! i)], 0)
      in if n = 1 then Inr ([promote sg (s ! i)], 0)
         else if n = 2 then
           (if i + 1 \<ge> length s \<or> \<not> isTrail sg (s ! (i + 1)) then invalid
            else Inr ([to32_2 sg (s ! i) (s ! (i + 1))], 1))
         else if n = 3 then
           (if i + 2 \<ge> length s \<or> \<not> isTrail sg (s ! (i + 1)) \<or> \<not> isTrail sg (s ! (i + 2))
            then invalid
            else if (errs \<noteq> Preserve_16 \<or> promote sg (s ! i) \<noteq> 0xED)
                    \<and> badPair (s ! i) (s ! (i + 1))
            then invalid
            else Inr ([ucast (ucast (to32_3 sg (s ! i) (s ! (i + 1)) (s ! (i + 2))) :: wchar)], 2))
         else if n = 4 then
           (if i + 3 \<ge> length s then Inl OutOfRange
            else if promote sg (s ! (i + 3)) \<noteq> 0 then invalid
            else Inr ([to32_3 sg (s ! i) (s ! (i + 1)) (s ! (i + 2))], 3))
         else invalid)"

function utf8to32_loop ::
  "char_sign \<Rightarrow> InvalidUnicode \<Rightarrow> char8 list \<Rightarrow> nat \<Rightarrow> char32 list \<Rightarrow> error + char32 list" where
  "utf8to32_loop sg errs s i u =
     (if i < length s then
        (case utf8to32_step sg errs s i of
           Inl e \<Rightarrow> Inl e
         | Inr (out, k) \<Rightarrow> utf8to32_loop sg errs s (i + k + 1) (u @ out))
      else Inr u)"
  by pat_completeness auto
termination
  by (relation "measure (\<lambda>(sg, errs, s, i, u). length s - i)") auto

declare utf8to32_loop.simps [simp del]

definition utf8to32 :: "char_sign \<Rightarrow> InvalidUnicode \<Rightarrow> char8 list \<Rightarrow> error + char32 list" where
  "utf8to32 sg errs s = utf8to32_loop sg errs s 0 []"

text \<open>The body of the range-based \<^verbatim>\<open>for\<close> of \<^verbatim>\<open>utf32to8\<close>; \<^verbatim>\<open>static_cast<char>\<close> keeps the low 8 bits.\<close>

definition utf32to8_unit :: "InvalidUnicode \<Rightarrow> char32 \<Rightarrow> char8 list" where
  "utf32to8_unit errs c =
     (if c < 0x80 then [ucast c]
      else if c < 0x800 then
        [ucast (drop_bit 6 c OR 0xC0), ucast ((c AND 0x3F) OR 0x80)]
      else if c \<ge> 0xD800 \<and> c \<le> 0xDFFF \<and> errs \<noteq> Preserve_16 then
        (if errs = Preserve_8 \<and> (c \<ge> 0xDC80 \<and> c \<le> 0xDCFF) then [ucast (0xFF AND c)]
         else [0xEF, 0xBF, 0xBD])
      else if c \<le> 0x10000 then
        [ucast (drop_bit 12 c OR 0xE0), ucast ((drop_bit 6 c AND 0x3F) OR 0x80),
         ucast ((c AND 0x3F) OR 0x80)]
      else if c \<le> 0x110000 then
        [ucast (drop_bit 18 c OR 0xF0), ucast ((drop_bit 12 c AND 0x3F) OR 0x80),
         ucast ((drop_bit 6 c AND 0x3F) OR 0x80), ucast ((c AND 0x3F) OR 0x80)]
      else [0xEF, 0xBF, 0xBD])"

definition utf32to8 :: "InvalidUnicode \<Rightarrow> char32 list \<Rightarrow> char8 list" where
  "utf32to8 errs u = concat (map (utf32to8_unit errs) u)"

section \<open>Converters between UTF-8 and UTF-16\<close>

text \<open>
  One iteration of \<^verbatim>\<open>utf8to16\<close>. Here \<^verbatim>\<open>case 4\<close> calls the four-argument
  \<^verbatim>\<open>valid_trail\<close> inside the condition, behind the length check.
\<close>

definition utf8to16_step ::
  "char_sign \<Rightarrow> InvalidUnicode \<Rightarrow> char8 list \<Rightarrow> nat \<Rightarrow> wchar list \<times> nat" where
  "utf8to16_step sg errs s i =
     (let n = implicit_length sg (s ! i);
          invalid = ([ucast (invalid_unit sg errs (s ! i))], 0)
      in if n = 1 then ([ucast (promote sg (s ! i))], 0)
         else if n = 2 then
           (if i + 1 \<ge> length s \<or> \<not> isTrail sg (s ! (i + 1)) then invalid
            else ([ucast (to32_2 sg (s ! i) (s ! (i + 1)))], 1))
         else if n = 3 then
           (if i + 2 \<ge> length s \<or> \<not> isTrail sg (s ! (i + 1)) \<or> \<not> isTrail sg (s ! (i + 2))
            then invalid
            else if (errs \<noteq> Preserve_16 \<or> promote sg (s ! i) \<noteq> 0xED)
                    \<and> badPair (s ! i) (s ! (i + 1))
            then invalid
            else ([ucast (to32_3 sg (s ! i) (s ! (i + 1)) (s ! (i + 2)))], 2))
         else if n = 4 then
           (if i + 3 \<ge> length s
               \<or> \<not> valid_trail4 sg (s ! i) (s ! (i + 1)) (s ! (i + 2)) (s ! (i + 3))
            then invalid
            else (let u = to32_4 sg (s ! i) (s ! (i + 1)) (s ! (i + 2)) (s ! (i + 3))
                  in ([ucast (0xD800 + drop_bit 10 (u - 0x10000)),
                       ucast (0xDC00 + (u AND 0x03FF))], 3)))
         else invalid)"

function utf8to16_loop ::
  "char_sign \<Rightarrow> InvalidUnicode \<Rightarrow> char8 list \<Rightarrow> nat \<Rightarrow> wchar list \<Rightarrow> wchar list" where
  "utf8to16_loop sg errs s i w =
     (if i < length s then
        (case utf8to16_step sg errs s i of
           (out, k) \<Rightarrow> utf8to16_loop sg errs s (i + k + 1) (w @ out))
      else w)"
  by pat_completeness auto
termination
  by (relation "measure (\<lambda>(sg, errs, s, i, w). length s - i)") auto

declare utf8to16_loop.simps [simp del]

definition utf8to16 :: "char_sign \<Rightarrow> InvalidUnicode \<Rightarrow> char8 list \<Rightarrow> wchar list" where
  "utf8to16 sg errs s = utf8to16_loop sg errs s 0 []"

text \<open>
  One iteration of \<^verbatim>\<open>utf16to8\<close>; \<open>c\<close> is \<^verbatim>\<open>w[i]\<close>, \<open>ci\<close> its promotion to
  \<^verbatim>\<open>int\<close>. The third test is the source's \<^verbatim>\<open>c < 0xD800 && c > 0xDFFF\<close>.
\<close>

definition utf16to8_step :: "InvalidUnicode \<Rightarrow> wchar list \<Rightarrow> nat \<Rightarrow> char8 list \<times> nat" where
  "utf16to8_step errs w i =
     (let c = w ! i; ci = (ucast c :: 32 word)
      in if c < 0x80 then ([ucast c], 0)
         else if c < 0x800 then
           ([ucast (drop_bit 6 ci OR 0xC0), ucast ((ci AND 0x3F) OR 0x80)], 0)
         else if c < 0xD800 \<and> c > 0xDFFF then
           ([ucast (drop_bit 12 ci OR 0xE0), ucast ((drop_bit 6 ci AND 0x3F) OR 0x80),
             ucast ((ci AND 0x3F) OR 0x80)], 0)
         else if i + 1 < length w \<and> w ! (i + 1) \<ge> 0xDC00 \<and> w ! (i + 1) \<le> 0xDFFF then
           (let u = (push_bit 10 (ci AND 0x7FF) OR (ucast (w ! (i + 1)) AND 0x03FF)) + 0x10000
            in ([ucast (drop_bit 18 u OR 0xF0), ucast ((drop_bit 12 u AND 0x3F) OR 0x80),
                 ucast ((drop_bit 6 u AND 0x3F) OR 0x80), ucast ((u AND 0x3F) OR 0x80)], 1))
         else if errs = Preserve_8 \<and> (c \<ge> 0xDC80 \<and> c \<le> 0xDCFF) then ([ucast (0xFF AND ci)], 0)
         else if errs = Preserve_16 then
           ([0xED, ucast ((drop_bit 6 ci AND 0x3F) OR 0x80), ucast ((ci AND 0x3F) OR 0x80)], 0)
         else ([0xEF, 0xBF, 0xBD], 0))"

function utf16to8_loop :: "InvalidUnicode \<Rightarrow> wchar list \<Rightarrow> nat \<Rightarrow> char8 list \<Rightarrow> char8 list" where
  "utf16to8_loop errs w i s =
     (if i < length w then
        (case utf16to8_step errs w i of
           (out, k) \<Rightarrow> utf16to8_loop errs w (i + k + 1) (s @ out))
      else s)"
  by pat_completeness auto
termination
  by (relation "measure (\<lambda>(errs, w, i, s). length w - i)") auto

declare utf16to8_loop.simps [simp del]

definition utf16to8 :: "InvalidUnicode \<Rightarrow> wchar list \<Rightarrow> char8 list" where
  "utf16to8 errs w = utf16to8_loop errs w 0 []"

section \<open>Chunked calls of the Windows codec\<close>

text \<open>
  \<^verbatim>\<open>fromWide\<close> and \<^verbatim>\<open>toWide\<close> (\<^verbatim>\<open>UtilityFrameworkMIT.h\<close>) hand the input to
  \<^verbatim>\<open>WideCharToMultiByte\<close> and \<^verbatim>\<open>MultiByteToWideChar\<close> in segments. The two
  Windows functions are parameters of the model: a function from the code page and the
  segment to the converted segment. Each pass of the loop calls the codec twice on the same
  segment (for the size, then for the data) and appends the result to \<^verbatim>\<open>r\<close>; the model
  records the segment of each pass as the pair of \<^verbatim>\<open>workingPoint\<close> and length, in
  call order, and \<^verbatim>\<open>r\<close> is the concatenation of the converted segments.

  \<^verbatim>\<open>safeSize\<close> is a local constant of each function; the loops take it as an argument
  and the two functions pass their constant. A pass that makes a segment of length 0
  leaves \<^verbatim>\<open>workingPoint\<close> where it was, and the loop does not end: in \<^verbatim>\<open>fromWide\<close>
  only if \<^verbatim>\<open>safeSize\<close> were 1, in \<^verbatim>\<open>toWide\<close> when the first byte of the input is
  followed by \<^verbatim>\<open>safeSize\<close> continuation bytes. So the loops are partial functions, and
  \<open>None\<close> stands for a loop that does not end.
\<close>

definition safeSize_fromWide :: nat where
  "safeSize_fromWide = 2147483647 div 8"

definition safeSize_toWide :: nat where
  "safeSize_toWide = 2147483647 div 2"

definition CP_UTF8 :: nat where
  "CP_UTF8 = 65001"

definition segment :: "'a list \<Rightarrow> nat \<times> nat \<Rightarrow> 'a list" where
  "segment s call = (case call of (workingPoint, ss) \<Rightarrow> take ss (drop workingPoint s))"

text \<open>The test of \<^verbatim>\<open>fromWide\<close> reads \<^verbatim>\<open>s[ss - 1]\<close>, an index into the whole input.\<close>

partial_function (option) fromWide_loop ::
  "nat \<Rightarrow> wchar list \<Rightarrow> nat \<Rightarrow> (nat \<times> nat) list \<Rightarrow> (error + (nat \<times> nat) list) option" where
  "fromWide_loop safeSize s workingPoint calls =
     (if length s - workingPoint > safeSize then
        (if safeSize = 0 then Some (Inl OutOfRange)
         else
           (let ss = (if s ! (safeSize - 1) \<ge> 0xD800 \<and> s ! (safeSize - 1) \<le> 0xDBFF
                      then safeSize - 1 else safeSize)
            in fromWide_loop safeSize s (workingPoint + ss) (calls @ [(workingPoint, ss)])))
      else Some (Inr (calls @ [(workingPoint, length s - workingPoint)])))"

definition fromWide_calls :: "wchar list \<Rightarrow> (error + (nat \<times> nat) list) option" where
  "fromWide_calls s = (if length s = 0 then Some (Inr []) else fromWide_loop safeSize_fromWide s 0 [])"

definition fromWide ::
  "(nat \<Rightarrow> wchar list \<Rightarrow> char8 list) \<Rightarrow> wchar list \<Rightarrow> nat \<Rightarrow> (error + char8 list) option" where
  "fromWide WideCharToMultiByte s codepage =
     (case fromWide_calls s of
        None \<Rightarrow> None
      | Some (Inl e) \<Rightarrow> Some (Inl e)
      | Some (Inr calls) \<Rightarrow>
          Some (Inr (concat (map (\<lambda>call. WideCharToMultiByte codepage (segment s call)) calls))))"

text \<open>
  The inner loop of \<^verbatim>\<open>toWide\<close>, \<^verbatim>\<open>while ((s[--ss] & 0xC0) == 0x80);\<close>, from the
  value of \<^verbatim>\<open>ss\<close> before the first decrement to its value after the loop. It reads
  indices into the whole input as well, and index \<open>-1\<close> when every byte before is a
  continuation byte.
\<close>

fun toWide_back :: "char_sign \<Rightarrow> char8 list \<Rightarrow> nat \<Rightarrow> error + nat" where
  "toWide_back sg s 0 = Inl OutOfRange"
| "toWide_back sg s (Suc ss) =
     (if ss \<ge> length s then Inl OutOfRange
      else if promote sg (s ! ss) AND 0xC0 = 0x80 then toWide_back sg s ss
      else Inr ss)"

partial_function (option) toWide_loop ::
  "char_sign \<Rightarrow> nat \<Rightarrow> char8 list \<Rightarrow> nat \<Rightarrow> nat \<Rightarrow> (nat \<times> nat) list
     \<Rightarrow> (error + (nat \<times> nat) list) option" where
  "toWide_loop sg safeSize s codepage workingPoint calls =
     (if length s - workingPoint > safeSize then
        (case (if codepage = CP_UTF8 \<and> promote sg (s ! safeSize) AND 0xC0 = 0x80
               then toWide_back sg s safeSize else Inr safeSize) of
           Inl e \<Rightarrow> Some (Inl e)
         | Inr ss \<Rightarrow>
             toWide_loop sg safeSize s codepage (workingPoint + ss) (calls @ [(workingPoint, ss)]))
      else Some (Inr (calls @ [(workingPoint, length s - workingPoint)])))"

definition toWide_calls ::
  "char_sign \<Rightarrow> char8 list \<Rightarrow> nat \<Rightarrow> (error + (nat \<times> nat) list) option" where
  "toWide_calls sg s codepage =
     (if length s = 0 then Some (Inr []) else toWide_loop sg safeSize_toWide s codepage 0 [])"

definition toWide ::
  "char_sign \<Rightarrow> (nat \<Rightarrow> char8 list \<Rightarrow> wchar list) \<Rightarrow> char8 list \<Rightarrow> nat
     \<Rightarrow> (error + wchar list) option" where
  "toWide sg MultiByteToWideChar s codepage =
     (case toWide_calls sg s codepage of
        None \<Rightarrow> None
      | Some (Inl e) \<Rightarrow> Some (Inl e)
      | Some (Inr calls) \<Rightarrow>
          Some (Inr (concat (map (\<lambda>call. MultiByteToWideChar codepage (segment s call)) calls))))"

section \<open>Evaluation and enumeration\<close>

lemmas utf8byte_defs =
  promote_def isASCII_def isTrail_def isLead2_def isLead3_def isLead4_def isTrash_def
  badPair_def implicit_length_def valid_trail3_def valid_trail4_def
  to32_2_def to32_3_def to32_4_def invalid_unit_def

lemmas utf8to32_eval = utf8to32_def utf8to32_loop.simps utf8to32_step_def utf8byte_defs

lemmas utf8to16_eval = utf8to16_def utf8to16_loop.simps utf8to16_step_def utf8byte_defs

lemmas utf16to8_eval = utf16to8_def utf16to8_loop.simps utf16to8_step_def

lemmas utf32to8_eval = utf32to8_def utf32to8_unit_def

lemmas utf32to16_eval = utf32to16_def utf32to16_unit_def

lemmas utf16to32_eval = utf16to32_def utf16to32_loop.simps

text \<open>A property of every byte is checked on the 256 bytes.\<close>

lemma all_less_numeral:
  "(\<forall>n<numeral k. P n) \<longleftrightarrow> P (pred_numeral k) \<and> (\<forall>n<pred_numeral k. P n)"
  by (simp add: numeral_eq_Suc All_less_Suc)

lemma all_bytes: "(\<forall>c::char8. P c) \<longleftrightarrow> (\<forall>n<256. P (of_nat n))"
proof
  assume "\<forall>c. P c"
  then show "\<forall>n<256. P (of_nat n)" by simp
next
  assume all: "\<forall>n<256. P (of_nat n)"
  show "\<forall>c. P c"
  proof
    fix c :: char8
    have "unat c < 256" using unsigned_less [of c] by simp
    with all have "P (of_nat (unat c))" by blast
    then show "P c" by simp
  qed
qed

section \<open>The byte classifier\<close>

text \<open>
  With an unsigned \<^verbatim>\<open>char\<close>, \<^verbatim>\<open>implicit_length\<close> is the table of UTF-8 lead bytes:
  \<open>0xF4\<close> is a lead of a four-byte sequence.
\<close>

lemma implicit_length_unsigned:
  "implicit_length UnsignedChar c =
     (if c \<le> 0x7F then 1
      else if 0xC2 \<le> c \<and> c \<le> 0xDF then 2
      else if 0xE0 \<le> c \<and> c \<le> 0xEF then 3
      else if 0xF0 \<le> c \<and> c \<le> 0xF4 then 4
      else 0)"
proof -
  have "\<forall>c. implicit_length UnsignedChar c =
     (if c \<le> 0x7F then 1
      else if 0xC2 \<le> c \<and> c \<le> 0xDF then 2
      else if 0xE0 \<le> c \<and> c \<le> 0xEF then 3
      else if 0xF0 \<le> c \<and> c \<le> 0xF4 then 4
      else 0)"
    unfolding all_bytes
    by (simp add: all_less_numeral implicit_length_def isASCII_def isLead2_def isLead3_def
        isLead4_def promote_def)
  then show ?thesis by blast
qed

text \<open>
  With a signed \<^verbatim>\<open>char\<close> the comparison \<^verbatim>\<open>c == 0xF4\<close> of \<^verbatim>\<open>isLead4\<close> compares a
  value between -128 and 127 with 244 and never holds: the four-byte leads are
  \<open>0xF0\<close> to \<open>0xF3\<close>, and \<open>0xF4\<close> has length 0.
\<close>

lemma implicit_length_signed:
  "implicit_length SignedChar c =
     (if c \<le> 0x7F then 1
      else if 0xC2 \<le> c \<and> c \<le> 0xDF then 2
      else if 0xE0 \<le> c \<and> c \<le> 0xEF then 3
      else if 0xF0 \<le> c \<and> c \<le> 0xF3 then 4
      else 0)"
proof -
  have "\<forall>c. implicit_length SignedChar c =
     (if c \<le> 0x7F then 1
      else if 0xC2 \<le> c \<and> c \<le> 0xDF then 2
      else if 0xE0 \<le> c \<and> c \<le> 0xEF then 3
      else if 0xF0 \<le> c \<and> c \<le> 0xF3 then 4
      else 0)"
    unfolding all_bytes
    by (simp add: all_less_numeral implicit_length_def isASCII_def isLead2_def isLead3_def
        isLead4_def promote_def)
  then show ?thesis by blast
qed

text \<open>
  C8 (\<^verbatim>\<open>implicit_length\<close> is 4 for \<open>0xF0\<close> to \<open>0xF4\<close>, special-casing \<open>0xF4\<close>): with the
  signed \<^verbatim>\<open>char\<close> of the Microsoft compiler the special case \<^verbatim>\<open>c == 0xF4\<close> never
  applies. The byte \<open>0xF4\<close> gets length 0 and is classified as trash, where a
  compiler with an unsigned \<^verbatim>\<open>char\<close> gives 4.
\<close>

theorem implicit_length_F4_signed:
  "implicit_length SignedChar 0xF4 = 0 \<and> isTrash SignedChar 0xF4
   \<and> implicit_length UnsignedChar 0xF4 = 4 \<and> \<not> isTrash UnsignedChar 0xF4"
  by (simp add: utf8byte_defs)

section \<open>Surrogate pairs from code points\<close>

lemma high_surrogate_iff_wrap:
  fixes k :: nat
  shows "(55296 \<le> (55296 + k) mod 65536 \<and> (55296 + k) mod 65536 \<le> 56319)
           \<longleftrightarrow> k mod 65536 < 1024"
proof -
  define r where "r = k mod 65536"
  have r: "r < 65536" by (simp add: r_def)
  have eq: "(55296 + k) mod 65536 = (55296 + r) mod 65536"
    unfolding r_def by (rule mod_add_right_eq [symmetric])
  show ?thesis
  proof (cases "r < 10240")
    case True
    then have "(55296 + r) mod 65536 = 55296 + r" by simp
    then show ?thesis by (simp add: eq flip: r_def) arith
  next
    case False
    then have "(55296 + r) mod 65536 = (55296 + r - 65536) mod 65536"
      by (simp add: le_mod_geq)
    also have "\<dots> = r - 10240" using False r by simp
    finally have "(55296 + r) mod 65536 = r - 10240" .
    with False r show ?thesis by (simp add: eq flip: r_def)
  qed
qed

lemma utf32to16_first_unit:
  fixes v :: char32
  shows "unat (ucast (0xD800 + drop_bit 10 (v - 0x10000)) :: wchar)
           = (55296 + unat (drop_bit 10 (v - 0x10000))) mod 65536"
proof -
  have "unat (v - 0x10000) < 4294967296" using unsigned_less [of "v - 0x10000"] by simp
  then have small: "unat (drop_bit 10 (v - 0x10000)) < 4194304"
    by (simp add: drop_bit_eq_div unat_div)
  have sum: "unat (0xD800 + drop_bit 10 (v - 0x10000))
               = 55296 + unat (drop_bit 10 (v - 0x10000))"
    using small by (subst unat_add_lem [THEN iffD1]) simp_all
  show ?thesis by (simp add: unsigned_ucast_eq sum take_bit_eq_mod)
qed

text \<open>
  C10, as amended: \<^verbatim>\<open>utf32to16\<close> splits every \<open>v \<ge> 0x10000\<close>, wherever it stands in the
  input and however large it is, into exactly two units, \<open>0xD800 + ((v - 0x10000) >> 10)\<close>
  cut to 16 bits and \<open>0xDC00 + (v & 0x3FF)\<close>, and converts what stands before and after as
  it would alone. The first unit is a high surrogate (\<open>0xD800\<close> to \<open>0xDBFF\<close>) exactly
  when \<open>((v - 0x10000) >> 10) mod 65536 < 1024\<close>.
\<close>

theorem utf32to16_out_of_range:
  fixes v :: char32
  assumes "0x10000 \<le> v"
  shows "utf32to16 (xs @ v # ys)
           = utf32to16 xs
             @ [ucast (0xD800 + drop_bit 10 (v - 0x10000)), ucast (0xDC00 + (v AND 0x03FF))]
             @ utf32to16 ys
         \<and> ((0xD800 \<le> (ucast (0xD800 + drop_bit 10 (v - 0x10000)) :: wchar)
              \<and> (ucast (0xD800 + drop_bit 10 (v - 0x10000)) :: wchar) \<le> 0xDBFF)
             = (unat (drop_bit 10 (v - 0x10000)) mod 65536 < 1024))"
proof
  from assms show "utf32to16 (xs @ v # ys)
           = utf32to16 xs
             @ [ucast (0xD800 + drop_bit 10 (v - 0x10000)), ucast (0xDC00 + (v AND 0x03FF))]
             @ utf32to16 ys"
    by (simp add: utf32to16_eval)
next
  show "(0xD800 \<le> (ucast (0xD800 + drop_bit 10 (v - 0x10000)) :: wchar)
              \<and> (ucast (0xD800 + drop_bit 10 (v - 0x10000)) :: wchar) \<le> 0xDBFF)
             = (unat (drop_bit 10 (v - 0x10000)) mod 65536 < 1024)"
    by (simp only: word_le_nat_alt utf32to16_first_unit
        high_surrogate_iff_wrap [symmetric]) simp
qed

theorem utf32to16_out_of_range_witness:
  "(0x10000 :: char32) \<le> 0x110000
   \<and> utf32to16 [0x41, 0x110000, 0x42] = [0x41, 0xDC00, 0xDC00, 0x42]
   \<and> \<not> (0xD800 \<le> (0xDC00 :: wchar) \<and> (0xDC00 :: wchar) \<le> 0xDBFF)
   \<and> \<not> unat (drop_bit 10 (0x110000 - 0x10000 :: char32)) mod 65536 < 1024"
  using utf32to16_out_of_range [of "0x110000" "[0x41]" "[0x42]"]
  by (simp add: utf32to16_eval)

text \<open>
  Between \<open>0x10FFFF\<close> and \<open>0x4010000\<close> the shifted value lies between 1024 and 65535 and
  the cut to 16 bits does not wrap far enough: the first unit is no high surrogate.
  \<open>0x4010000\<close> is the first value above \<open>0x10FFFF\<close> whose first unit is one.
\<close>

lemma utf32to16_below_first_wrap:
  fixes v :: char32
  assumes "0x10FFFF < v" and "v < 0x4010000"
  shows "\<not> unat (drop_bit 10 (v - 0x10000)) mod 65536 < 1024"
proof -
  have lo: "1114111 < unat v" using assms(1) by (simp add: word_less_nat_alt)
  have hi: "unat v < 67174400" using assms(2) by (simp add: word_less_nat_alt)
  have sub: "unat (v - 0x10000) = unat v - 65536"
    using lo by (subst unat_sub) (simp_all add: word_le_nat_alt)
  have shift: "unat (drop_bit 10 (v - 0x10000)) = (unat v - 65536) div 1024"
    by (simp add: drop_bit_eq_div unat_div sub)
  have "1024 \<le> (unat v - 65536) div 1024" and "(unat v - 65536) div 1024 < 65536"
    using lo hi by simp_all
  then show ?thesis by (simp add: shift)
qed

lemma utf32to16_far_out_of_range:
  "utf32to16 [0xFFFFFFFF] = [0xD7BF, 0xDFFF] \<and> utf32to16 [0x80000000] = [0xD7C0, 0xDC00]
   \<and> utf32to16 [0x4110000] = [0xDC00, 0xDC00]"
  by (simp add: utf32to16_eval)

text \<open>
  C10, as stated (for every \<open>v > 0x10FFFF\<close> the first unit is not a high surrogate and the
  output is not a well-formed pair), fails at \<open>v = 0x4010000\<close>: the cut to 16 bits
  wraps around, the output is the pair \<open>D800 DC00\<close>, and \<^verbatim>\<open>utf16to32\<close> reads that pair
  as U+10000.
\<close>

theorem utf32to16_wraps_to_pair:
  "(0x10FFFF :: char32) < 0x4010000
   \<and> utf32to16 [0x4010000] = [0xD800, 0xDC00]
   \<and> (0xD800 :: wchar) \<le> hd (utf32to16 [0x4010000])
   \<and> hd (utf32to16 [0x4010000]) \<le> (0xDBFF :: wchar)
   \<and> utf16to32 [0xD800, 0xDC00] = [0x10000]"
  by (simp add: utf32to16_eval utf16to32_eval)

section \<open>Round trips\<close>

text \<open>
  C1 (for every valid UTF-8 sequence \<open>s\<close> and every policy \<open>p\<close>,
  \<^verbatim>\<open>utf32to8(utf8to32(s, p), p) == s\<close> and \<^verbatim>\<open>utf16to8(utf8to16(s, p), p) == s\<close>) does not
  hold of the code. \<open>F0 9F 98 80\<close> is the UTF-8 form of U+1F600 and \<open>E2 82 AC\<close> that of
  U+20AC, as \<^verbatim>\<open>utf32to8\<close> itself encodes them. \<^verbatim>\<open>utf8to32\<close> turns the first into four
  U+FFFD under \<open>Substitute\<close>, since \<^verbatim>\<open>case 4\<close> breaks on every fourth byte other than
  0, and these encode as twelve bytes. \<^verbatim>\<open>utf8to16\<close> reads the second as \<open>0x20AC\<close> under every
  policy, and \<^verbatim>\<open>utf16to8\<close>, whose test \<^verbatim>\<open>c < 0xD800 && c > 0xDFFF\<close> never holds, writes
  \<open>EF BF BD\<close> or, under \<open>Preserve_16\<close>, \<open>ED 82 AC\<close>.
\<close>

theorem valid_utf8_round_trip_fails:
  "utf32to8 p [0x1F600] = [0xF0, 0x9F, 0x98, 0x80]
   \<and> utf8to32 sg Substitute [0xF0, 0x9F, 0x98, 0x80] = Inr [0xFFFD, 0xFFFD, 0xFFFD, 0xFFFD]
   \<and> utf32to8 Substitute [0xFFFD, 0xFFFD, 0xFFFD, 0xFFFD]
         = [0xEF, 0xBF, 0xBD, 0xEF, 0xBF, 0xBD, 0xEF, 0xBF, 0xBD, 0xEF, 0xBF, 0xBD]
   \<and> utf32to8 p [0x20AC] = [0xE2, 0x82, 0xAC]
   \<and> utf8to16 sg p [0xE2, 0x82, 0xAC] = [0x20AC]
   \<and> utf16to8 p [0x20AC]
         = (if p = Preserve_16 then [0xED, 0x82, 0xAC] else [0xEF, 0xBF, 0xBD])"
proof -
  have a: "utf32to8 p [0x1F600] = [0xF0, 0x9F, 0x98, 0x80]"
    by (cases p) (simp_all add: utf32to8_eval)
  have b: "utf8to32 sg Substitute [0xF0, 0x9F, 0x98, 0x80] = Inr [0xFFFD, 0xFFFD, 0xFFFD, 0xFFFD]"
    by (cases sg) (simp_all add: utf8to32_eval)
  have c: "utf32to8 Substitute [0xFFFD, 0xFFFD, 0xFFFD, 0xFFFD]
         = [0xEF, 0xBF, 0xBD, 0xEF, 0xBF, 0xBD, 0xEF, 0xBF, 0xBD, 0xEF, 0xBF, 0xBD]"
    by (simp add: utf32to8_eval)
  have d: "utf32to8 p [0x20AC] = [0xE2, 0x82, 0xAC]"
    by (cases p) (simp_all add: utf32to8_eval)
  have e: "utf8to16 sg p [0xE2, 0x82, 0xAC] = [0x20AC]"
    by (cases sg; cases p) (simp_all add: utf8to16_eval)
  have f: "utf16to8 p [0x20AC]
         = (if p = Preserve_16 then [0xED, 0x82, 0xAC] else [0xEF, 0xBF, 0xBD])"
    by (cases p) (simp_all add: utf16to8_eval)
  from a b c d e f show ?thesis by blast
qed

text \<open>
  C2 (\<^verbatim>\<open>utf32to8(utf8to32(s, Preserve_8), Preserve_8) == s\<close> for every byte sequence) does
  not hold of the code: of the four bytes \<open>F0 90 80 00\<close>, whose fourth byte is 0,
  \<^verbatim>\<open>case 4\<close> makes the one code point \<open>0x400\<close> out of the first three and skips the
  fourth; \<open>0x400\<close> encodes as \<open>D0 80\<close>.
\<close>

theorem preserve_8_round_trip_fails:
  "utf8to32 sg Preserve_8 [0xF0, 0x90, 0x80, 0x00] = Inr [0x400]
   \<and> utf32to8 Preserve_8 [0x400] = [0xD0, 0x80]"
proof -
  have a: "utf8to32 sg Preserve_8 [0xF0, 0x90, 0x80, 0x00] = Inr [0x400]"
    by (cases sg) (simp_all add: utf8to32_eval)
  have b: "utf32to8 Preserve_8 [0x400] = [0xD0, 0x80]"
    by (simp add: utf32to8_eval)
  from a b show ?thesis by blast
qed

text \<open>
  One lone surrogate does come back from its \<open>ED\<close>-led form where \<^verbatim>\<open>char\<close> is unsigned.
  Where it is signed, \<^verbatim>\<open>s[i] != 0xED\<close> holds of every byte, \<^verbatim>\<open>badPair\<close> is consulted
  under \<open>Preserve_16\<close> too, and the three bytes are three invalid units.
\<close>

lemma lone_surrogate_by_char_sign:
  "utf16to8 Preserve_16 [0xD800] = [0xED, 0xA0, 0x80]
   \<and> utf8to16 UnsignedChar Preserve_16 [0xED, 0xA0, 0x80] = [0xD800]
   \<and> utf8to16 SignedChar Preserve_16 [0xED, 0xA0, 0x80] = [0xFFFD, 0xFFFD, 0xFFFD]"
  by (simp add: utf16to8_eval utf8to16_eval)

text \<open>
  C3 (\<^verbatim>\<open>utf8to16(utf16to8(u, Preserve_16), Preserve_16) == u\<close> for every \<open>u\<close> containing lone
  surrogates) does not hold of the code. In \<open>DC00 DC00\<close> both units are lone low
  surrogates. \<^verbatim>\<open>utf16to8\<close> asks only whether the next unit is a low surrogate, not whether
  \<^verbatim>\<open>c\<close> is a high one, and writes the two as the pair for \<open>0x110000\<close>, \<open>F4 90 80 80\<close>;
  \<^verbatim>\<open>utf8to16\<close> reads these bytes as four invalid units.
\<close>

theorem preserve_16_round_trip_fails:
  "utf16to8 Preserve_16 [0xDC00, 0xDC00] = [0xF4, 0x90, 0x80, 0x80]
   \<and> utf8to16 sg Preserve_16 [0xF4, 0x90, 0x80, 0x80] = [0xFFFD, 0xFFFD, 0xFFFD, 0xFFFD]"
proof -
  have a: "utf16to8 Preserve_16 [0xDC00, 0xDC00] = [0xF4, 0x90, 0x80, 0x80]"
    by (simp add: utf16to8_eval)
  have b: "utf8to16 sg Preserve_16 [0xF4, 0x90, 0x80, 0x80] = [0xFFFD, 0xFFFD, 0xFFFD, 0xFFFD]"
    by (cases sg) (simp_all add: utf8to16_eval)
  from a b show ?thesis by blast
qed

section \<open>Invalid input\<close>

text \<open>
  C5 (under \<open>Substitute\<close> every invalid unit gives exactly one U+FFFD and the scan advances
  by one unit) does not hold of the code. In \<open>F0 41 42 00\<close> the lead \<open>F0\<close> is followed by
  no continuation byte; \<^verbatim>\<open>utf8to32\<close> emits no U+FFFD, consumes all four bytes and returns
  the single code point \<open>0x42\<close>. \<^verbatim>\<open>utf16to8\<close> turns the two lone surrogates
  \<open>DC00 DC00\<close> into \<open>F4 90 80 80\<close>, bytes that are not UTF-8, and no U+FFFD.
\<close>

theorem substitute_not_applied:
  "utf8to32 sg Substitute [0xF0, 0x41, 0x42, 0x00] = Inr [0x42]
   \<and> utf16to8 Substitute [0xDC00, 0xDC00] = [0xF4, 0x90, 0x80, 0x80]"
proof -
  have a: "utf8to32 sg Substitute [0xF0, 0x41, 0x42, 0x00] = Inr [0x42]"
    by (cases sg) (simp_all add: utf8to32_eval)
  have b: "utf16to8 Substitute [0xDC00, 0xDC00] = [0xF4, 0x90, 0x80, 0x80]"
    by (simp add: utf16to8_eval)
  from a b show ?thesis by blast
qed

text \<open>
  The value of \<^verbatim>\<open>0xDC00 + s[i]\<close> for a byte from \<open>0x80\<close> on: \<open>0xDC00 | b\<close> where
  \<^verbatim>\<open>char\<close> is unsigned, \<open>0xDB00 | b\<close> where it is signed and the promoted byte is
  negative.
\<close>

lemma invalid_unit_by_char_sign:
  assumes "0x80 \<le> c"
  shows "invalid_unit UnsignedChar Preserve_8 c = 0xDC00 OR ucast c"
    and "invalid_unit SignedChar Preserve_8 c = 0xDB00 OR ucast c"
proof -
  have "\<forall>c::char8. 0x80 \<le> c \<longrightarrow>
          invalid_unit UnsignedChar Preserve_8 c = 0xDC00 OR ucast c
          \<and> invalid_unit SignedChar Preserve_8 c = 0xDB00 OR ucast c"
    unfolding all_bytes
    by (simp add: all_less_numeral invalid_unit_def promote_def word_le_nat_alt)
  with assms show "invalid_unit UnsignedChar Preserve_8 c = 0xDC00 OR ucast c"
    and "invalid_unit SignedChar Preserve_8 c = 0xDB00 OR ucast c"
    by blast+
qed

text \<open>
  The escape of \<open>Preserve_8\<close> where \<^verbatim>\<open>char\<close> is unsigned: \<open>FF\<close> becomes \<open>0xDCFF\<close>, and
  \<^verbatim>\<open>utf32to8\<close> turns \<open>0xDCFF\<close> back into the byte \<open>FF\<close>.
\<close>

lemma preserve_8_escape_unsigned:
  "utf8to32 UnsignedChar Preserve_8 [0xFF] = Inr [0xDCFF]
   \<and> utf32to8 Preserve_8 [0xDCFF] = [0xFF]"
  by (simp add: utf8to32_eval utf32to8_eval)

text \<open>
  C6 (under \<open>Preserve_8\<close>, \<^verbatim>\<open>utf8to32\<close> maps every invalid byte \<open>b\<close> to \<open>0xDC00 | b\<close> and
  advances by one byte; \<open>FF\<close> gives \<open>0xDCFF\<close>) does not hold of the code. The invalid lead
  \<open>F0\<close> of \<open>F0 41 42 00\<close> is not escaped: the four bytes become the code point
  \<open>0x42\<close>. And with the signed \<^verbatim>\<open>char\<close> of the Microsoft compiler \<^verbatim>\<open>0xDC00 + s[i]\<close>
  adds a negative number: \<open>FF\<close> becomes \<open>0xDBFF\<close>, which \<^verbatim>\<open>utf32to8\<close> does not take for
  an escaped byte.
\<close>

theorem preserve_8_escape_fails:
  "utf8to32 sg Preserve_8 [0xF0, 0x41, 0x42, 0x00] = Inr [0x42]
   \<and> utf8to32 SignedChar Preserve_8 [0xFF] = Inr [0xDBFF]
   \<and> utf32to8 Preserve_8 [0xDBFF] = [0xEF, 0xBF, 0xBD]"
proof -
  have a: "utf8to32 sg Preserve_8 [0xF0, 0x41, 0x42, 0x00] = Inr [0x42]"
    by (cases sg) (simp_all add: utf8to32_eval)
  have b: "utf8to32 SignedChar Preserve_8 [0xFF] = Inr [0xDBFF]"
    by (simp add: utf8to32_eval)
  have c: "utf32to8 Preserve_8 [0xDBFF] = [0xEF, 0xBF, 0xBD]"
    by (simp add: utf32to8_eval)
  from a b c show ?thesis by blast
qed

section \<open>Encoding a code point\<close>

text \<open>Above \<open>0x10000\<close> and up to \<open>0x10FFFF\<close> the encoding has the four bytes of UTF-8.\<close>

lemma utf32to8_four_bytes:
  assumes "0x10000 < c" and "c \<le> 0x10FFFF"
  shows "utf32to8 p [c]
           = [ucast (drop_bit 18 c OR 0xF0), ucast ((drop_bit 12 c AND 0x3F) OR 0x80),
              ucast ((drop_bit 6 c AND 0x3F) OR 0x80), ucast ((c AND 0x3F) OR 0x80)]"
proof -
  have lo: "65536 < unat c" using assms(1) by (simp add: word_less_nat_alt)
  have hi: "unat c \<le> 1114111" using assms(2) by (simp add: word_le_nat_alt)
  from lo hi show ?thesis
    by (simp add: utf32to8_eval word_less_nat_alt word_le_nat_alt)
qed

text \<open>
  C7 (\<^verbatim>\<open>utf32to8\<close> emits four bytes with an \<open>F0\<close>-pattern lead for
  \<open>0x10000 \<le> c \<le> 0x10FFFF\<close>) does not hold of the code at \<open>c = 0x10000\<close>: the test of
  the three-byte branch is \<^verbatim>\<open>c <= 0x10000\<close>, and U+10000 is written as the three bytes
  \<open>F0 80 80\<close> instead of \<open>F0 90 80 80\<close>, under every policy.
\<close>

theorem utf32to8_0x10000_three_bytes:
  "utf32to8 p [0x10000] = [0xF0, 0x80, 0x80]"
  by (cases p) (simp_all add: utf32to8_eval)

section \<open>Boundary inputs\<close>

lemma empty_input:
  "utf16to32 [] = [] \<and> utf32to16 [] = [] \<and> utf8to32 sg p [] = Inr [] \<and> utf32to8 p [] = []
   \<and> utf8to16 sg p [] = [] \<and> utf16to8 p [] = []"
  by (simp add: utf16to32_eval utf32to16_eval utf8to32_eval utf32to8_eval utf8to16_eval
      utf16to8_eval)

lemma overlong_C0_80:
  "utf8to32 sg Substitute [0xC0, 0x80] = Inr [0xFFFD, 0xFFFD]"
  by (cases sg) (simp_all add: utf8to32_eval)

text \<open>
  C9 (empty input gives empty output; under \<open>Substitute\<close> the lone byte \<open>F0\<close> gives
  exactly one U+FFFD and no crash; \<open>C0 80\<close> gives two U+FFFD) does not hold of the code
  for the lone \<open>F0\<close>: the condition of \<^verbatim>\<open>case 4\<close> reads \<^verbatim>\<open>s[i + 3]\<close>, here \<^verbatim>\<open>s[3]\<close>
  of a view of length 1, and what follows depends on memory outside the input.
\<close>

theorem truncated_lead_reads_past_end:
  "utf8to32 sg Substitute [0xF0] = Inl OutOfRange"
  by (cases sg) (simp_all add: utf8to32_eval)

section \<open>Segments after the first\<close>

text \<open>With the constant of the source, the loop of \<^verbatim>\<open>fromWide\<close> ends on every input.\<close>

lemma fromWide_loop_returns:
  assumes "2 \<le> L"
  shows "\<exists>calls'. fromWide_loop L s workingPoint calls = Some (Inr calls')"
proof (induction "length s - workingPoint" arbitrary: workingPoint calls rule: less_induct)
  case less
  show ?case
  proof (cases "length s - workingPoint > L")
    case False
    then show ?thesis by (subst fromWide_loop.simps) simp
  next
    case True
    define ss where
      "ss = (if s ! (L - 1) \<ge> 0xD800 \<and> s ! (L - 1) \<le> 0xDBFF then L - 1 else L)"
    have pos: "0 < ss" and le: "ss \<le> L" using assms by (simp_all add: ss_def)
    have "length s - (workingPoint + ss) < length s - workingPoint"
      using True pos le by simp
    from less [OF this] obtain calls' where
      "fromWide_loop L s (workingPoint + ss) (calls @ [(workingPoint, ss)]) = Some (Inr calls')"
      by blast
    moreover have "fromWide_loop L s workingPoint calls
        = fromWide_loop L s (workingPoint + ss) (calls @ [(workingPoint, ss)])"
      using True assms by (subst fromWide_loop.simps) (simp add: ss_def Let_def)
    ultimately show ?thesis by simp
  qed
qed

lemma fromWide_calls_returns: "\<exists>calls. fromWide_calls s = Some (Inr calls)"
proof -
  have "2 \<le> safeSize_fromWide" by (simp add: safeSize_fromWide_def)
  from fromWide_loop_returns [OF this] show ?thesis by (simp add: fromWide_calls_def)
qed

text \<open>
  An input of \<open>2 * safeSize + 1\<close> units whose last two units belong together is cut into
  three segments. The test of the second pass looks at the same index of the whole input
  as the test of the first pass, so the second segment ends where the first would have,
  \<open>safeSize\<close> units after its start, whatever stands there.
\<close>

lemma fromWide_loop_three_segments:
  assumes "2 \<le> L"
  shows "fromWide_loop L (replicate (2 * L - 1) 0x41 @ [0xD83D, 0xDE00]) 0 []
           = Some (Inr [(0, L), (L, L), (2 * L, 1)])"
proof -
  let ?s = "replicate (2 * L - 1) (0x41 :: wchar) @ [0xD83D, 0xDE00]"
  have len: "length ?s = 2 * L + 1" using assms by simp
  have at: "?s ! (L - 1) = 0x41" using assms by (simp add: nth_append)
  have 1: "fromWide_loop L ?s 0 [] = fromWide_loop L ?s L [(0, L)]"
    using assms by (subst fromWide_loop.simps) (simp only: len at, simp)
  have 2: "fromWide_loop L ?s L [(0, L)] = fromWide_loop L ?s (2 * L) [(0, L), (L, L)]"
    using assms by (subst fromWide_loop.simps) (simp only: len at, simp add: mult_2)
  have 3: "fromWide_loop L ?s (2 * L) [(0, L), (L, L)]
             = Some (Inr [(0, L), (L, L), (2 * L, 1)])"
    using assms by (subst fromWide_loop.simps) (simp only: len, simp)
  show ?thesis by (simp only: 1 2 3)
qed

lemma toWide_loop_three_segments:
  assumes "2 \<le> L"
  shows "toWide_loop sg L (replicate (2 * L - 1) 0x41 @ [0xC3, 0xA9]) CP_UTF8 0 []
           = Some (Inr [(0, L), (L, L), (2 * L, 1)])"
proof -
  let ?s = "replicate (2 * L - 1) (0x41 :: char8) @ [0xC3, 0xA9]"
  have len: "length ?s = 2 * L + 1" using assms by simp
  have at: "?s ! L = 0x41" using assms by (simp add: nth_append)
  have no_trail: "promote sg 0x41 AND 0xC0 \<noteq> 0x80"
    by (cases sg) (simp_all add: promote_def)
  have 1: "toWide_loop sg L ?s CP_UTF8 0 [] = toWide_loop sg L ?s CP_UTF8 L [(0, L)]"
    using assms no_trail by (subst toWide_loop.simps) (simp only: len at, simp)
  have 2: "toWide_loop sg L ?s CP_UTF8 L [(0, L)]
             = toWide_loop sg L ?s CP_UTF8 (2 * L) [(0, L), (L, L)]"
    using assms no_trail by (subst toWide_loop.simps) (simp only: len at, simp add: mult_2)
  have 3: "toWide_loop sg L ?s CP_UTF8 (2 * L) [(0, L), (L, L)]
             = Some (Inr [(0, L), (L, L), (2 * L, 1)])"
    using assms by (subst toWide_loop.simps) (simp only: len, simp)
  show ?thesis by (simp only: 1 2 3)
qed

lemma second_and_third_segment:
  assumes "2 \<le> L"
  shows "segment (replicate (2 * L - 1) a @ [b, c]) (L, L) = replicate (L - 1) a @ [b]"
    and "segment (replicate (2 * L - 1) a @ [b, c]) (2 * L, 1) = [c]"
proof -
  have "2 * L - 1 - L = L - 1" using assms by simp
  then show "segment (replicate (2 * L - 1) a @ [b, c]) (L, L) = replicate (L - 1) a @ [b]"
    using assms by (simp add: segment_def)
  have "2 * L - (2 * L - 1) = 1" using assms by simp
  then show "segment (replicate (2 * L - 1) a @ [b, c]) (2 * L, 1) = [c]"
    using assms by (simp add: segment_def)
qed

text \<open>
  C4 (in every segment handed to the codec, not only the first, the boundary does not
  split a multi-unit character) does not hold of the code, with the constants of the
  source. \<^verbatim>\<open>fromWide\<close> on \<open>2 * safeSize - 1\<close> letters followed by the surrogate pair
  \<open>D83D DE00\<close> makes three calls: the second segment ends with the high surrogate
  \<open>D83D\<close> and the third is the low surrogate \<open>DE00\<close> alone. \<^verbatim>\<open>toWide\<close> with code page
  UTF-8 on \<open>2 * safeSize - 1\<close> letters followed by \<open>C3 A9\<close> makes three calls: the second
  segment ends with the lead byte \<open>C3\<close> and the third is the continuation byte \<open>A9\<close>
  alone.
\<close>

theorem later_segment_splits_character:
  "fromWide_calls (replicate (2 * safeSize_fromWide - 1) 0x41 @ [0xD83D, 0xDE00])
     = Some (Inr [(0, safeSize_fromWide), (safeSize_fromWide, safeSize_fromWide),
                  (2 * safeSize_fromWide, 1)])
   \<and> segment (replicate (2 * safeSize_fromWide - 1) 0x41 @ [0xD83D, 0xDE00 :: wchar])
         (safeSize_fromWide, safeSize_fromWide)
       = replicate (safeSize_fromWide - 1) 0x41 @ [0xD83D]
   \<and> segment (replicate (2 * safeSize_fromWide - 1) 0x41 @ [0xD83D, 0xDE00 :: wchar])
         (2 * safeSize_fromWide, 1)
       = [0xDE00]
   \<and> toWide_calls sg (replicate (2 * safeSize_toWide - 1) 0x41 @ [0xC3, 0xA9]) CP_UTF8
       = Some (Inr [(0, safeSize_toWide), (safeSize_toWide, safeSize_toWide),
                    (2 * safeSize_toWide, 1)])
   \<and> segment (replicate (2 * safeSize_toWide - 1) 0x41 @ [0xC3, 0xA9 :: char8])
         (safeSize_toWide, safeSize_toWide)
       = replicate (safeSize_toWide - 1) 0x41 @ [0xC3]
   \<and> segment (replicate (2 * safeSize_toWide - 1) 0x41 @ [0xC3, 0xA9 :: char8])
         (2 * safeSize_toWide, 1)
       = [0xA9]"
proof -
  have f: "2 \<le> safeSize_fromWide" by (simp add: safeSize_fromWide_def)
  have t: "2 \<le> safeSize_toWide" by (simp add: safeSize_toWide_def)
  have a: "fromWide_calls (replicate (2 * safeSize_fromWide - 1) 0x41 @ [0xD83D, 0xDE00])
     = Some (Inr [(0, safeSize_fromWide), (safeSize_fromWide, safeSize_fromWide),
                  (2 * safeSize_fromWide, 1)])"
    using fromWide_loop_three_segments [OF f] by (simp add: fromWide_calls_def)
  have b: "toWide_calls sg (replicate (2 * safeSize_toWide - 1) 0x41 @ [0xC3, 0xA9]) CP_UTF8
       = Some (Inr [(0, safeSize_toWide), (safeSize_toWide, safeSize_toWide),
                    (2 * safeSize_toWide, 1)])"
    using toWide_loop_three_segments [OF t] by (simp add: toWide_calls_def)
  show ?thesis
    by (simp only: a b second_and_third_segment [OF f] second_and_third_segment [OF t] simp_thms)
qed

text \<open>The same on a small scale, with 4 for \<^verbatim>\<open>safeSize\<close>.\<close>

lemma later_segment_small:
  "fromWide_loop 4 [0x41, 0x41, 0x41, 0x41, 0x41, 0x41, 0x41, 0xD83D, 0xDE00] 0 []
     = Some (Inr [(0, 4), (4, 4), (8, 1)])
   \<and> segment [0x41, 0x41, 0x41, 0x41, 0x41, 0x41, 0x41, 0xD83D, 0xDE00 :: wchar] (4, 4)
       = [0x41, 0x41, 0x41, 0xD83D]"
  by (simp add: fromWide_loop.simps segment_def)

end
